theory Spec2Isabelle
  imports Main "HOL-Library.Sublist"
begin

section \<open>JavaScript values and operators used by the sources\<close>

text \<open>
  A property or parameter that TypeScript declares optional (\<^verbatim>\<open>name?: T\<close>) holds
  \<^verbatim>\<open>undefined\<close>, \<^verbatim>\<open>null\<close> or a value. The three cases are kept apart because
  \<^verbatim>\<open>??\<close> and \<^verbatim>\<open>?.\<close> test for the first two only, while \<^verbatim>\<open>||\<close>, \<^verbatim>\<open>&&\<close> and \<^verbatim>\<open>!\<close>
  test truthiness (an empty string is defined and falsy).
\<close>

datatype 'a nullable = Undefined | Null | Defined 'a

text \<open>A property is set when it holds a value, whatever the value (the empty string
  included).\<close>

fun is_set :: "'a nullable \<Rightarrow> bool" where
  "is_set (Defined a) = True"
| "is_set Undefined = False"
| "is_set Null = False"

text \<open>\<^verbatim>\<open>a ?? b\<close>: \<^verbatim>\<open>b\<close> is taken only when \<^verbatim>\<open>a\<close> is undefined or null.\<close>

fun nullish_coalescing :: "'a nullable \<Rightarrow> 'a nullable \<Rightarrow> 'a nullable" where
  "nullish_coalescing (Defined a) b = Defined a"
| "nullish_coalescing Undefined b = b"
| "nullish_coalescing Null b = b"

text \<open>\<^verbatim>\<open>a?.f\<close>: undefined when \<^verbatim>\<open>a\<close> is undefined or null, never a TypeError.\<close>

fun optional_chaining :: "'a nullable \<Rightarrow> ('a \<Rightarrow> 'b nullable) \<Rightarrow> 'b nullable" where
  "optional_chaining (Defined a) f = f a"
| "optional_chaining Undefined f = Undefined"
| "optional_chaining Null f = Undefined"

text \<open>Truthiness of an optional object (every object is truthy) and of an optional string.\<close>

fun truthy_object :: "'a nullable \<Rightarrow> bool" where
  "truthy_object (Defined a) = True"
| "truthy_object Undefined = False"
| "truthy_object Null = False"

fun truthy_string :: "string nullable \<Rightarrow> bool" where
  "truthy_string (Defined s) = (s \<noteq> [])"
| "truthy_string Undefined = False"
| "truthy_string Null = False"

text \<open>\<^verbatim>\<open>a || b\<close> where \<^verbatim>\<open>a\<close> is an optional object and \<^verbatim>\<open>b\<close> an object.\<close>

fun logical_or_object :: "'a nullable \<Rightarrow> 'a \<Rightarrow> 'a" where
  "logical_or_object (Defined a) b = a"
| "logical_or_object Undefined b = b"
| "logical_or_object Null b = b"

text \<open>Decimal rendering of a non-negative integer, as \<^verbatim>\<open>toString()\<close> and template
  interpolation print it.\<close>

definition digit_char :: "nat \<Rightarrow> char" where
  "digit_char d =
     (if d = 0 then CHR ''0'' else if d = 1 then CHR ''1'' else if d = 2 then CHR ''2''
      else if d = 3 then CHR ''3'' else if d = 4 then CHR ''4'' else if d = 5 then CHR ''5''
      else if d = 6 then CHR ''6'' else if d = 7 then CHR ''7'' else if d = 8 then CHR ''8''
      else CHR ''9'')"

function decimal :: "nat \<Rightarrow> string" where
  "decimal n = (if n < 10 then [digit_char n] else decimal (n div 10) @ [digit_char (n mod 10)])"
  by pat_completeness auto
termination
  by (relation "measure id") auto

declare decimal.simps [simp del]

section \<open>The job runner construct (src/runner/job-runner.ts)\<close>

subsection \<open>Data\<close>

text \<open>
  The declaration of \<^verbatim>\<open>RunnerConfiguration\<close> (\<^verbatim>\<open>../runner-configuration\<close>) is not among
  the sources. The constructor reads \<^verbatim>\<open>token\<close>, \<^verbatim>\<open>name\<close> and
  \<^verbatim>\<open>machine?.machineOptions?.keypairName\<close>; all remaining fields are carried, unread, in
  \<open>others\<close>.
\<close>

record MachineOptions =
  keypairName :: "string nullable"

record MachineConfiguration =
  machineOptions :: "MachineOptions nullable"

record 'x RunnerConfiguration =
  token :: "string nullable"
  name :: "string nullable"
  machine :: "MachineConfiguration nullable"
  others :: 'x

text \<open>\<^verbatim>\<open>IStringParameter\<close>, of which only \<^verbatim>\<open>stringValue\<close> is read, and \<^verbatim>\<open>ISecret\<close>,
  which is only tested for presence and stored.\<close>

record IStringParameter =
  stringValue :: string

datatype ISecret = Secret string

text \<open>
  \<^verbatim>\<open>InstanceClass\<close> and \<^verbatim>\<open>InstanceSize\<close> are enumerations of the imported library
  \<^verbatim>\<open>aws-cdk-lib/aws-ec2\<close>; the members listed are the burstable and standard classes and
  the sizes the burstable class T3 is offered in, smallest first. \<open>size_rank\<close> is the
  position in that list.
\<close>

datatype InstanceClass = T2 | T3 | T3A | T4G | M5

datatype InstanceSize = NANO | MICRO | SMALL | MEDIUM | LARGE | XLARGE | XLARGE2


datatype InstanceType = InstanceType_of InstanceClass InstanceSize | InstanceType string


text \<open>The argument of \<^verbatim>\<open>new LookupMachineImage({...})\<close>.\<close>

record LookupMachineImageProps =
  lookup_name :: string
  owners :: "string list"
  filters :: "(string \<times> string list) list"

text \<open>\<^verbatim>\<open>IMachineImage\<close>: the result of \<^verbatim>\<open>MachineImage.genericLinux\<close> (a map from region
  to image id) or any other image the caller built.\<close>

datatype IMachineImage =
  MachineImage_genericLinux "(string \<times> string) list"
| MachineImage_other string

text \<open>\<^verbatim>\<open>IRole\<close>: a role supplied by the caller, or \<^verbatim>\<open>new Role(scope, id, {assumedBy,
  managedPolicies})\<close>.\<close>

datatype IRole =
  SuppliedRole string
| Role string string "string list"

record CfnInstanceProfile =
  profile_id :: string
  roles :: "IRole list"

datatype severity = Error | Warning | Info

type_synonym annotation = "severity \<times> string"

text \<open>
  Configuration objects live in a store: \<^verbatim>\<open>props.configuration\<close> is a reference, and the
  object spread \<^verbatim>\<open>{...props.configuration, token: ..., name: ...}\<close> allocates a new object.
  References from \<open>next_ref\<close> on are free.
\<close>

type_synonym ref = nat

record 'x heap =
  objects :: "ref \<Rightarrow> 'x RunnerConfiguration option"
  next_ref :: ref

definition alloc :: "'x RunnerConfiguration \<Rightarrow> 'x heap \<Rightarrow> ref \<times> 'x heap" where
  "alloc obj h =
     (next_ref h, h\<lparr>objects := (objects h)(next_ref h := Some obj), next_ref := Suc (next_ref h)\<rparr>)"

definition well_formed :: "'x heap \<Rightarrow> bool" where
  "well_formed h = (objects h (next_ref h) = None)"

record GitlabRunnerAutoscalingJobRunnerProps =
  props_token :: "IStringParameter nullable"
  configuration :: ref
  instanceType :: "InstanceType nullable"
  machineImage :: "IMachineImage nullable"
  role :: "IRole nullable"
  keyPair :: "ISecret nullable"

text \<open>
  What the constructor reads from outside its arguments: the clock and the random number
  generator (\<^verbatim>\<open>new Date().getTime()\<close>, \<^verbatim>\<open>Math.floor(Math.random() * 100000)\<close>), the
  region of the enclosing stack, the image id the library's lookup returns for a request,
  and the imported function \<^verbatim>\<open>pascalCase\<close>.
\<close>

record world =
  getTime :: nat
  random_floor :: nat
  stack_region :: string
  getImage_imageId :: "LookupMachineImageProps \<Rightarrow> string"
  pascalCase :: "string \<Rightarrow> string"

record GitlabRunnerAutoscalingJobRunner =
  this_configuration :: ref
  this_instanceType :: InstanceType
  this_machineImage :: IMachineImage
  this_role :: IRole
  this_instanceProfile :: CfnInstanceProfile
  this_keyPair :: "ISecret nullable"
  annotations :: "annotation list"
  role_tags :: "(string \<times> string) list"

subsection \<open>The constructor\<close>

definition generateUniqueName :: "world \<Rightarrow> string" where
  "generateUniqueName w = ''gitlab-runner-'' @ decimal (getTime w) @ decimal (random_floor w)"

text \<open>Lines 75 to 79: the resolved configuration.\<close>

definition resolved_token :: "GitlabRunnerAutoscalingJobRunnerProps \<Rightarrow> 'x RunnerConfiguration \<Rightarrow> string nullable" where
  "resolved_token props cfg =
     nullish_coalescing (token cfg)
       (optional_chaining (props_token props) (\<lambda>p. Defined (stringValue p)))"

definition resolved_name :: "world \<Rightarrow> 'x RunnerConfiguration \<Rightarrow> string" where
  "resolved_name w cfg =
     (case name cfg of Defined n \<Rightarrow> n | Undefined \<Rightarrow> generateUniqueName w | Null \<Rightarrow> generateUniqueName w)"

definition resolve_configuration ::
  "world \<Rightarrow> GitlabRunnerAutoscalingJobRunnerProps \<Rightarrow> 'x RunnerConfiguration \<Rightarrow> 'x RunnerConfiguration" where
  "resolve_configuration w props cfg =
     cfg\<lparr>token := resolved_token props cfg, name := Defined (resolved_name w cfg)\<rparr>"

text \<open>Line 80.\<close>

definition default_instanceType :: InstanceType where
  "default_instanceType = InstanceType_of T3 MICRO"

text \<open>Lines 81 to 95.\<close>

definition default_lookup :: LookupMachineImageProps where
  "default_lookup =
     \<lparr>lookup_name = ''ubuntu/images/hvm-ssd/ubuntu-focal-20.04-amd64-server-*'',
      owners = [''099720109477''],
      filters =
        [(''architecture'', [''x86_64'']),
         (''image-type'', [''machine'']),
         (''state'', [''available'']),
         (''root-device-type'', [''ebs'']),
         (''virtualization-type'', [''hvm''])]\<rparr>"

definition default_machineImage :: "world \<Rightarrow> IMachineImage" where
  "default_machineImage w =
     MachineImage_genericLinux [(stack_region w, getImage_imageId w default_lookup)]"

text \<open>Lines 96 to 108.\<close>

definition default_role :: "world \<Rightarrow> string \<Rightarrow> IRole" where
  "default_role w n =
     Role (''RunnersRoleFor'' @ pascalCase w n) ''ec2.amazonaws.com'' [''AmazonSSMManagedInstanceCore'']"

text \<open>Lines 110 to 114: the test and the annotation it adds.\<close>

definition keypairName_of :: "'x RunnerConfiguration \<Rightarrow> string nullable" where
  "keypairName_of cfg =
     optional_chaining (optional_chaining (machine cfg) machineOptions) keypairName"

definition keyPair_error :: string where
  "keyPair_error =
     ''If runner.keyPair is configured, then props.configuration.machine.machineOptions.keypairName must also be set.''"

definition keyPair_check :: "GitlabRunnerAutoscalingJobRunnerProps \<Rightarrow> 'x RunnerConfiguration \<Rightarrow> annotation list" where
  "keyPair_check props cfg =
     (if truthy_object (keyPair props) \<and> \<not> truthy_string (keypairName_of cfg)
      then [(Error, keyPair_error)] else [])"

text \<open>
  The constructor. The result is \<open>None\<close> only for a reference that points at no object,
  which no JavaScript value does; the source has no \<^verbatim>\<open>throw\<close>, and every property read
  on a possibly absent object is an optional chain.
\<close>

definition constructor ::
  "world \<Rightarrow> 'x heap \<Rightarrow> GitlabRunnerAutoscalingJobRunnerProps \<Rightarrow>
     (GitlabRunnerAutoscalingJobRunner \<times> 'x heap) option" where
  "constructor w h props =
     (case objects h (configuration props) of
        None \<Rightarrow> None
      | Some cfg \<Rightarrow>
          let (r, h') = alloc (resolve_configuration w props cfg) h;
              the_role = logical_or_object (role props) (default_role w (resolved_name w cfg))
          in Some
               (\<lparr>this_configuration = r,
                 this_instanceType = logical_or_object (instanceType props) default_instanceType,
                 this_machineImage = logical_or_object (machineImage props) (default_machineImage w),
                 this_role = the_role,
                 this_instanceProfile =
                   \<lparr>profile_id = ''RunnersInstanceProfileFor'' @ pascalCase w (resolved_name w cfg),
                    roles = [the_role]\<rparr>,
                 this_keyPair = keyPair props,
                 annotations = keyPair_check props cfg,
                 role_tags = [(''RunnersRole'', ''RunnersRole'')]\<rparr>,
                h'))"

text \<open>The object \<^verbatim>\<open>this.configuration\<close> refers to once the constructor has run, and
  the annotations the constructor has added.\<close>

definition resolved_configuration ::
  "world \<Rightarrow> 'x heap \<Rightarrow> GitlabRunnerAutoscalingJobRunnerProps \<Rightarrow> 'x RunnerConfiguration option" where
  "resolved_configuration w h props =
     (case constructor w h props of
        None \<Rightarrow> None
      | Some (r, h') \<Rightarrow> objects h' (this_configuration r))"


subsection \<open>Concrete inputs\<close>

definition example_world :: world where
  "example_world =
     \<lparr>getTime = 1700000000000, random_floor = 4711, stack_region = ''eu-central-1'',
      getImage_imageId = (\<lambda>l. ''ami-0123456789abcdef0''), pascalCase = (\<lambda>n. n)\<rparr>"

definition example_configuration ::
  "string nullable \<Rightarrow> string nullable \<Rightarrow> string nullable \<Rightarrow> unit RunnerConfiguration" where
  "example_configuration tok nm kp =
     \<lparr>token = tok, name = nm,
      machine = Defined \<lparr>machineOptions = Defined \<lparr>keypairName = kp\<rparr>\<rparr>,
      others = ()\<rparr>"

definition example_heap :: "unit RunnerConfiguration \<Rightarrow> unit heap" where
  "example_heap cfg = \<lparr>objects = (\<lambda>r. if r = 0 then Some cfg else None), next_ref = 1\<rparr>"

definition example_runner_props :: GitlabRunnerAutoscalingJobRunnerProps where
  "example_runner_props =
     \<lparr>props_token = Defined \<lparr>stringValue = ''glrt-from-parameter''\<rparr>,
      configuration = 0,
      instanceType = Undefined,
      machineImage = Undefined,
      role = Undefined,
      keyPair = Undefined\<rparr>"

section \<open>The stack (GitlabRunnerStack)\<close>

subsection \<open>Values of type any\<close>

text \<open>
  Most stack properties are declared \<^verbatim>\<open>any\<close>. The constructor only interpolates them
  into template strings (\<^verbatim>\<open>String(v)\<close>) and tests one of them for truthiness. The
  primitive values are modelled as they are; a number is an integer, which JavaScript
  prints in decimal (below \<open>10\<^sup>2\<^sup>1\<close> in magnitude). Every other value (a number with
  a fraction, an object, an array) is given by the two things the constructor can see of
  it: the text \<^verbatim>\<open>String(v)\<close> and its truthiness.
\<close>

datatype any =
  AnyUndefined | AnyNull | AnyBoolean bool | AnyNumber int | AnyString string
| AnyOther string bool

definition Number_toString :: "int \<Rightarrow> string" where
  "Number_toString i = (if i < 0 then ''-'' @ decimal (nat (- i)) else decimal (nat i))"

fun String_any :: "any \<Rightarrow> string" where
  "String_any AnyUndefined = ''undefined''"
| "String_any AnyNull = ''null''"
| "String_any (AnyBoolean b) = (if b then ''true'' else ''false'')"
| "String_any (AnyNumber i) = Number_toString i"
| "String_any (AnyString v) = v"
| "String_any (AnyOther text t) = text"

fun truthy :: "any \<Rightarrow> bool" where
  "truthy AnyUndefined = False"
| "truthy AnyNull = False"
| "truthy (AnyBoolean b) = b"
| "truthy (AnyNumber i) = (i \<noteq> 0)"
| "truthy (AnyString v) = (v \<noteq> [])"
| "truthy (AnyOther text t) = t"

text \<open>\<^verbatim>\<open>String(o)\<close> of an optional plain object.\<close>

fun String_object :: "'a nullable \<Rightarrow> string" where
  "String_object (Defined a) = ''[object Object]''"
| "String_object Undefined = ''undefined''"
| "String_object Null = ''null''"

subsection \<open>Data\<close>

record Vpc =
  vpcId :: string

datatype SubnetType = PUBLIC | PRIVATE | ISOLATED

record SubnetSelection =
  subnetType :: SubnetType

record GitlabRunnerStackProps =
  instanceTypeIdentifier :: string
  vpc :: Vpc
  stack_machineImage :: IMachineImage
  cacheBucketName :: string
  cacheExpirationInDays :: int
  availabilityZone :: any
  vpcSubnet :: "SubnetSelection nullable"
  managerImageId :: any
  managerInstanceType :: any
  managerKeyPair :: any
  gitlabUrl :: any
  gitlabToken :: any
  gitlabRunnerInstanceType :: any
  gitlabDockerImage :: any
  gitlabMaxBuilds :: any
  gitlabMaxConcurrentBuilds :: any
  gitlabIdleCount :: any
  gitlabIdleTime :: any
  gitlabOffPeakTimezone :: any
  gitlabOffPeakIdleCount :: any
  gitlabOffPeakIdleTime :: any
  gitlabCheckInterval :: any
  gitlabRunnerSpotInstance :: any
  gitlabRunnerSpotInstancePrice :: any

text \<open>
  A \<^verbatim>\<open>Date\<close>, as far as the constructor uses it: the day it denotes is the \<open>date\<close>-th day
  counted from the first day of its month (day number \<open>month_start\<close>). \<^verbatim>\<open>setDate\<close> takes
  any integer and the month rolls over, so the fields are not normalised.
\<close>

record Date =
  month_start :: int
  date :: int

definition getDate :: "Date \<Rightarrow> int" where
  "getDate d = date d"

definition setDate :: "int \<Rightarrow> Date \<Rightarrow> Date" where
  "setDate v d = d\<lparr>date := v\<rparr>"

definition day_number :: "Date \<Rightarrow> int" where
  "day_number d = month_start d + date d - 1"

text \<open>
  What the constructor reads from its own stack object and from outside:
  \<^verbatim>\<open>this.stackName\<close>, \<^verbatim>\<open>this.region\<close>, \<^verbatim>\<open>this.urlSuffix\<close>, the logical id the library
  gives the runners' instance profile, and \<^verbatim>\<open>new Date()\<close>.
\<close>

record Stack =
  stackName :: string
  region :: string
  urlSuffix :: string
  runnersInstanceProfile_logicalId :: string
  new_Date :: Date

text \<open>The elements of a \<^verbatim>\<open>CloudFormationInit\<close> configuration, as the library's factory
  functions are called.\<close>

record InitFileOptions =
  owner :: string
  group :: string
  mode :: string

datatype InitElement =
  InitCommand_shellCommand string string
| InitPackage_yum string
| InitFile_fromString string string "InitFileOptions option"
| InitService_enable string bool bool

record CloudFormationInit =
  configSets :: "(string \<times> string list) list"
  configs :: "(string \<times> InitElement list) list"

record Instance =
  manager_instanceType :: InstanceType
  manager_vpc :: Vpc
  manager_machineImage :: IMachineImage
  userData :: "string list"
  keyName :: any
  vpcSubnets :: "SubnetSelection nullable"

record LifecycleRule =
  enabled :: bool
  expirationDate :: Date

datatype BucketEncryption = KMS | S3_MANAGED | UNENCRYPTED

record Bucket =
  bucketName :: string
  lifecycleRules :: "LifecycleRule list"
  encryption :: BucketEncryption
  bucketKeyEnabled :: bool

record GitlabRunnerStack =
  manager :: Instance
  metadata :: CloudFormationInit
  cacheBucket :: Bucket

subsection \<open>The files the constructor renders\<close>

text \<open>
  Each file is one multi-line template literal: a line break after the opening backquote,
  the lines of text, and the indentation before the closing backquote. \<open>unlines\<close> puts
  a line break after every line.
\<close>

definition unlines :: "string list \<Rightarrow> string" where
  "unlines ls = concat (map (\<lambda>l. l @ ''\<newline>'') ls)"

definition template_literal :: "string list \<Rightarrow> string \<Rightarrow> string" where
  "template_literal ls indentation = ''\<newline>'' @ unlines ls @ indentation"

text \<open>
  \<^verbatim>\<open>/etc/gitlab-runner/config.toml\<close> (lines 228 to 288) is written here section by
  section, one line of the source per line, with every interpolation in its place. The
  two conditional interpolations at the end of the \<^verbatim>\<open>MachineOptions\<close> list come first.
\<close>

definition spot_request_directive :: "GitlabRunnerStackProps \<Rightarrow> string" where
  "spot_request_directive p =
     (if truthy (gitlabRunnerSpotInstance p) then ''amazonec2-request-spot-instance=true'' else [])"

definition spot_price_directive :: "GitlabRunnerStackProps \<Rightarrow> string" where
  "spot_price_directive p =
     (if truthy (gitlabRunnerSpotInstance p)
      then ''amazonec2-spot-price='' @ String_any (gitlabRunnerSpotInstancePrice p) else [])"

definition global_section :: "GitlabRunnerStackProps \<Rightarrow> string list" where
  \<open>global_section p =
     [''            concurrent = '' @ String_any (gitlabMaxBuilds p),
      ''            check_interval = '' @ String_any (gitlabCheckInterval p)]\<close>

definition runners_section :: "Stack \<Rightarrow> GitlabRunnerStackProps \<Rightarrow> string list" where
  \<open>runners_section s p =
     [''            [[runners]]'',
      ''              name = "'' @ stackName s @ ''"'',
      ''              url = "'' @ String_any (gitlabUrl p) @ ''"'',
      ''              token = "'' @ String_any (gitlabToken p) @ ''"'',
      ''              executor = "docker+machine"'',
      ''              environment = ['',
      ''                "DOCKER_DRIVER=overlay2",'',
      ''                "DOCKER_TLS_CERTDIR=/certs"'',
      ''              ]'']\<close>

definition runners_docker_section :: "GitlabRunnerStackProps \<Rightarrow> string list" where
  \<open>runners_docker_section p =
     [''              [runners.docker]'',
      ''                tls_verify = false'',
      ''                image = "'' @ String_any (gitlabDockerImage p) @ ''"'',
      ''                privileged = true'',
      ''                disable_cache = false'',
      ''                volumes = ["/certs/client", "/cache"]'',
      ''                shm_size = 0'']\<close>

definition runners_cache_section :: "Stack \<Rightarrow> GitlabRunnerStackProps \<Rightarrow> string list" where
  \<open>runners_cache_section s p =
     [''              [runners.cache]'',
      ''                Type = "s3"'',
      ''                Shared = true'',
      ''              [runners.cache.s3]'',
      ''                ServerAddress = "s3.'' @ urlSuffix s @ ''"'',
      ''                BucketName = "'' @ cacheBucketName p @ ''"'',
      ''                BucketLocation = "'' @ region s @ ''"'']\<close>

definition runners_machine_section :: "GitlabRunnerStackProps \<Rightarrow> string list" where
  \<open>runners_machine_section p =
     [''              [runners.machine]'',
      ''                IdleCount = '' @ String_any (gitlabIdleCount p),
      ''                IdleTime = '' @ String_any (gitlabIdleTime p),
      ''                MaxBuilds = '' @ String_any (gitlabMaxBuilds p),
      ''                MachineDriver = "amazonec2"'',
      ''                MachineName = "gitlab-docker-machine-%s"'']\<close>

definition MachineOptions :: "Stack \<Rightarrow> GitlabRunnerStackProps \<Rightarrow> string list" where
  \<open>MachineOptions s p =
     [''                MachineOptions = ['',
      ''                  "amazonec2-instance-type='' @ String_any (gitlabRunnerInstanceType p) @ ''",'',
      ''                  "amazonec2-region='' @ region s @ ''",'',
      ''                  "amazonec2-vpc-id='' @ vpcId (vpc p) @ ''",'',
      ''                  "amazonec2-zone='' @ String_any (availabilityZone p) @ ''",'',
      ''                  "amazonec2-subnet-id='' @ String_object (vpcSubnet p) @ ''",'',
      ''                  "amazonec2-security-group='' @ stackName s @ ''-RunnersSecurityGroup",'',
      ''                  "amazonec2-use-private-address=true",'',
      ''                  "amazonec2-iam-instance-profile='' @ runnersInstanceProfile_logicalId s @ ''"'',
      ''                  '' @ spot_request_directive p @ '' '',
      ''                  '' @ spot_price_directive p,
      ''                ]'']\<close>

definition OffPeakTimezone :: "GitlabRunnerStackProps \<Rightarrow> string list" where
  \<open>OffPeakTimezone p =
     [''                OffPeakTimezone = "'' @ String_any (gitlabOffPeakTimezone p) @ ''"'']\<close>

definition OffPeakPeriods :: "string list" where
  \<open>OffPeakPeriods =
     [''                OffPeakPeriods = ["* * 0-8,18-23 * * mon-fri *", "* * * * * sat,sun *"]'']\<close>

definition OffPeakIdle :: "GitlabRunnerStackProps \<Rightarrow> string list" where
  \<open>OffPeakIdle p =
     [''                OffPeakIdleCount = '' @ String_any (gitlabOffPeakIdleCount p),
      ''                OffPeakIdleTime = '' @ String_any (gitlabOffPeakIdleTime p)]\<close>

definition off_peak_lines :: "GitlabRunnerStackProps \<Rightarrow> string list" where
  "off_peak_lines p = OffPeakTimezone p @ OffPeakPeriods @ OffPeakIdle p"

definition config_toml_lines :: "Stack \<Rightarrow> GitlabRunnerStackProps \<Rightarrow> string list" where
  "config_toml_lines s p =
     global_section p @ runners_section s p @ runners_docker_section p @
     runners_cache_section s p @ runners_machine_section p @ MachineOptions s p @
     off_peak_lines p"

definition config_toml :: "Stack \<Rightarrow> GitlabRunnerStackProps \<Rightarrow> string" where
  "config_toml s p = template_literal (config_toml_lines s p) ''            ''"


text \<open>The other three files (lines 194 to 198, 203 to 209 and 297 to 299).\<close>

definition cfn_hup_conf_lines :: "Stack \<Rightarrow> string list" where
  \<open>cfn_hup_conf_lines s =
     [''              [main]'',
      ''              stack='' @ stackName s,
      ''              region='' @ region s]\<close>

definition cfn_auto_reloader_conf_lines :: "Stack \<Rightarrow> string list" where
  \<open>cfn_auto_reloader_conf_lines s =
     [''              [cfn-auto-reloader-hook]'',
      ''              triggers=post.update'',
      ''              path=Resources.Manager.Metadata.AWS::CloudFormation::Init'',
      ''              action=/opt/aws/bin/cfn-init -v --stack '' @ stackName s @ '' --region '' @ region s @ '' --resource Manager --configsets default'',
      ''              runas=root'']\<close>

definition rsyslog_conf_lines :: "string list" where
  \<open>rsyslog_conf_lines =
     [''            :programname, isequal, "gitlab-runner" /var/log/gitlab-runner.log'']\<close>

definition cfn_hup_conf :: "Stack \<Rightarrow> string" where
  "cfn_hup_conf s = template_literal (cfn_hup_conf_lines s) ''            ''"

definition cfn_auto_reloader_conf :: "Stack \<Rightarrow> string" where
  "cfn_auto_reloader_conf s = template_literal (cfn_auto_reloader_conf_lines s) ''            ''"

definition rsyslog_conf :: string where
  "rsyslog_conf = template_literal rsyslog_conf_lines ''          ''"

subsection \<open>The constructor\<close>

text \<open>Lines 152 to 157.\<close>

definition userData_commands :: "Stack \<Rightarrow> string list" where
  "userData_commands s =
     [''yum update -y aws-cfn-bootstrap'',
      ''/opt/aws/bin/cfn-init --stack '' @ [CHR 0x27] @ stackName s @ [CHR 0x27] @ '' --region '' @
        [CHR 0x27] @ region s @ [CHR 0x27] @ '' --resource Manager --configsets default'',
      ''/opt/aws/bin/cfn-signal -e $? --stack '' @ [CHR 0x27] @ region s @ [CHR 0x27] @ '' --region '' @
        [CHR 0x27] @ region s @ [CHR 0x27] @ '' --resource Manager'']"

text \<open>Lines 159 to 170.\<close>

definition manager_instance :: "Stack \<Rightarrow> GitlabRunnerStackProps \<Rightarrow> Instance" where
  "manager_instance s p =
     \<lparr>manager_instanceType = InstanceType (instanceTypeIdentifier p),
      manager_vpc = vpc p,
      manager_machineImage = stack_machineImage p,
      userData = userData_commands s,
      keyName = managerKeyPair p,
      vpcSubnets = nullish_coalescing (vpcSubnet p) (Defined \<lparr>subnetType = PUBLIC\<rparr>)\<rparr>"

text \<open>Lines 175 to 318. The call stands in the constructor's body unguarded: no branch,
  \<^verbatim>\<open>throw\<close> or \<^verbatim>\<open>return\<close> precedes it.\<close>

definition CloudFormationInit_fromConfigSets :: "Stack \<Rightarrow> GitlabRunnerStackProps \<Rightarrow> CloudFormationInit" where
  "CloudFormationInit_fromConfigSets s p =
     \<lparr>configSets =
        [(''install'', [''reposritories'', ''packages'']),
         (''config'', [''config''])],
      configs =
        [(''repositories'',
            [InitCommand_shellCommand
               ''curl -L https://packages.gitlab.com/install/repositories/runner/gitlab-runner/script.rpm.sh | bash''
               ''10-gitlab-runner'']),
         (''packages'',
            [InitPackage_yum ''docker'',
             InitPackage_yum ''gitlab-runner'',
             InitPackage_yum ''tzdata'',
             InitFile_fromString ''/etc/cfn/cfn-hup.conf'' (cfn_hup_conf s)
               (Some \<lparr>owner = ''root'', group = ''root'', mode = ''root''\<rparr>),
             InitFile_fromString ''/etc/cfn/hooks.d/cfn-auto-reloader.conf'' (cfn_auto_reloader_conf s) None,
             InitCommand_shellCommand
               ''curl -L https://packages.gitlab.com/install/repositories/runner/gitlab-runner/script.rpm.sh | bash''
               ''10-gitlab-runner'',
             InitCommand_shellCommand ''gitlab-runner start'' ''20-gitlab-runner-start'',
             InitService_enable ''cfn-hup'' True True]),
         (''config'',
            [InitFile_fromString ''/etc/gitlab-runner/config.toml'' (config_toml s p)
               (Some \<lparr>owner = ''gitlab-runner'', group = ''gitlab-runner'', mode = ''000600''\<rparr>),
             InitFile_fromString ''/etc/rsyslog.d/25-gitlab-runner.conf'' rsyslog_conf
               (Some \<lparr>owner = ''root'', group = ''root'', mode = ''000644''\<rparr>),
             InitService_enable ''gitlab-runner'' True True,
             InitService_enable ''rsyslog'' True True])]\<rparr>"

text \<open>Lines 363 to 381.\<close>

definition cacheBucketExpirationDate :: "Stack \<Rightarrow> GitlabRunnerStackProps \<Rightarrow> Date" where
  "cacheBucketExpirationDate s p =
     (let today = getDate (new_Date s)
      in setDate (today + cacheExpirationInDays p) (new_Date s))"

definition lifeCycleRuleEnabled :: "GitlabRunnerStackProps \<Rightarrow> bool" where
  "lifeCycleRuleEnabled p = (cacheExpirationInDays p = 0)"

definition cacheBucket_of :: "Stack \<Rightarrow> GitlabRunnerStackProps \<Rightarrow> Bucket" where
  "cacheBucket_of s p =
     \<lparr>bucketName = cacheBucketName p,
      lifecycleRules =
        [\<lparr>enabled = lifeCycleRuleEnabled p, expirationDate = cacheBucketExpirationDate s p\<rparr>],
      encryption = KMS,
      bucketKeyEnabled = True\<rparr>"

text \<open>
  The constructor. The security groups, roles, instance profiles, the elastic address and
  the bucket deployment it also declares take no part in what follows and are left out.
  The source has no \<^verbatim>\<open>throw\<close>, no early \<^verbatim>\<open>return\<close> and no branch around any of the
  three results.
\<close>

definition GitlabRunnerStack_constructor :: "Stack \<Rightarrow> GitlabRunnerStackProps \<Rightarrow> GitlabRunnerStack" where
  "GitlabRunnerStack_constructor s p =
     \<lparr>manager = manager_instance s p,
      metadata = CloudFormationInit_fromConfigSets s p,
      cacheBucket = cacheBucket_of s p\<rparr>"

subsection \<open>Reading the generated artifacts\<close>

text \<open>The content of the file written at a path, and the service directives, of one
  named configuration of the metadata.\<close>

fun file_content :: "string \<Rightarrow> InitElement list \<Rightarrow> string option" where
  "file_content path [] = None"
| "file_content path (InitFile_fromString f content opts # es) =
     (if f = path then Some content else file_content path es)"
| "file_content path (e # es) = file_content path es"


definition bootstrap_document :: "GitlabRunnerStack \<Rightarrow> string option" where
  "bootstrap_document st =
     (case map_of (configs (metadata st)) ''config'' of
        None \<Rightarrow> None
      | Some es \<Rightarrow> file_content ''/etc/gitlab-runner/config.toml'' es)"


subsection \<open>A validator for the stack's properties\<close>



subsection \<open>Concrete inputs for the stack\<close>

definition example_stack :: Stack where
  "example_stack =
     \<lparr>stackName = ''GitlabRunnerStack'', region = ''eu-central-1'', urlSuffix = ''amazonaws.com'',
      runnersInstanceProfile_logicalId = ''RunnersInstanceProfile'',
      new_Date = \<lparr>month_start = 20393, date = 2\<rparr>\<rparr>"

definition example_props :: GitlabRunnerStackProps where
  "example_props =
     \<lparr>instanceTypeIdentifier = ''t3.micro'',
      vpc = \<lparr>vpcId = ''vpc-0a1b2c''\<rparr>,
      stack_machineImage = MachineImage_other ''amazon-linux-2'',
      cacheBucketName = ''runner-cache'',
      cacheExpirationInDays = 30,
      availabilityZone = AnyString ''a'',
      vpcSubnet = Undefined,
      managerImageId = AnyString ''ami-0123456789abcdef0'',
      managerInstanceType = AnyString ''t3.micro'',
      managerKeyPair = AnyUndefined,
      gitlabUrl = AnyString ''https://gitlab.com'',
      gitlabToken = AnyString ''abc'',
      gitlabRunnerInstanceType = AnyString ''c5.large'',
      gitlabDockerImage = AnyString ''alpine'',
      gitlabMaxBuilds = AnyNumber 10,
      gitlabMaxConcurrentBuilds = AnyNumber 20,
      gitlabIdleCount = AnyNumber 0,
      gitlabIdleTime = AnyNumber 300,
      gitlabOffPeakTimezone = AnyString ''Europe/Berlin'',
      gitlabOffPeakIdleCount = AnyNumber 0,
      gitlabOffPeakIdleTime = AnyNumber 0,
      gitlabCheckInterval = AnyNumber 0,
      gitlabRunnerSpotInstance = AnyBoolean False,
      gitlabRunnerSpotInstancePrice = AnyUndefined\<rparr>"

section \<open>Properties of the job runner construct\<close>

subsection \<open>What the constructor returns\<close>

lemma constructor_returns:
  assumes "objects h (configuration props) = Some cfg"
  shows "\<exists>r h'. constructor w h props = Some (r, h')"
  using assms by (simp add: constructor_def alloc_def Let_def)

lemma resolved_configuration_eq:
  assumes "objects h (configuration props) = Some cfg"
  shows "resolved_configuration w h props = Some (resolve_configuration w props cfg)"
  using assms by (simp add: resolved_configuration_def constructor_def alloc_def Let_def)


lemma example_heap_lookup:
  "objects (example_heap cfg) (configuration example_runner_props) = Some cfg"
  by (simp add: example_heap_def example_runner_props_def)

lemma example_heap_well_formed: "well_formed (example_heap cfg)"
  by (simp add: example_heap_def well_formed_def)


subsection \<open>The key pair diagnostic\<close>




subsection \<open>The token\<close>

text \<open>
  Claim C9. When \<^verbatim>\<open>configuration.token\<close> is defined, the empty string included, the
  resolved token is that value whatever the token parameter is (the parameter is not
  consulted); when it is undefined or null, the resolved token is the parameter's string
  value (undefined when there is no parameter).
\<close>

theorem C9_token_precedence:
  assumes "objects h (configuration props) = Some cfg"
  shows "(\<forall>t. token cfg = Defined t \<longrightarrow>
            (\<forall>x. map_option token (resolved_configuration w h (props\<lparr>props_token := x\<rparr>)) = Some (Defined t)))
       \<and> (\<not> is_set (token cfg) \<longrightarrow>
            map_option token (resolved_configuration w h props) =
              Some (case props_token props of
                      Defined sp \<Rightarrow> Defined (stringValue sp) | Undefined \<Rightarrow> Undefined | Null \<Rightarrow> Undefined))"
proof (intro conjI allI impI)
  fix t x
  assume t: "token cfg = Defined t"
  have "objects h (configuration (props\<lparr>props_token := x\<rparr>)) = Some cfg"
    using assms by simp
  then have "resolved_configuration w h (props\<lparr>props_token := x\<rparr>)
      = Some (resolve_configuration w (props\<lparr>props_token := x\<rparr>) cfg)"
    by (rule resolved_configuration_eq)
  with t show "map_option token (resolved_configuration w h (props\<lparr>props_token := x\<rparr>)) = Some (Defined t)"
    by (simp add: resolve_configuration_def resolved_token_def)
next
  assume n: "\<not> is_set (token cfg)"
  from n show "map_option token (resolved_configuration w h props) =
      Some (case props_token props of
              Defined sp \<Rightarrow> Defined (stringValue sp) | Undefined \<Rightarrow> Undefined | Null \<Rightarrow> Undefined)"
    by (cases "token cfg"; cases "props_token props")
       (simp_all add: resolved_configuration_eq [OF assms] resolve_configuration_def resolved_token_def)
qed

text \<open>An empty \<^verbatim>\<open>configuration.token\<close> beside a parameter, and a null one beside the same
  parameter.\<close>

theorem C9_token_precedence_witness:
  "map_option token
     (resolved_configuration example_world
        (example_heap (example_configuration (Defined []) Undefined Undefined)) example_runner_props)
     = Some (Defined [])
   \<and> map_option token
     (resolved_configuration example_world
        (example_heap (example_configuration Null Undefined Undefined)) example_runner_props)
     = Some (Defined ''glrt-from-parameter'')"
proof
  let ?c = "example_configuration (Defined []) Undefined Undefined"
  have "token ?c = Defined []" by (simp add: example_configuration_def)
  with C9_token_precedence [OF example_heap_lookup, of ?c example_world]
  have "map_option token (resolved_configuration example_world (example_heap ?c)
          (example_runner_props\<lparr>props_token := props_token example_runner_props\<rparr>)) = Some (Defined [])"
    by blast
  then show "map_option token (resolved_configuration example_world (example_heap ?c) example_runner_props)
      = Some (Defined [])" by simp
next
  let ?c = "example_configuration Null Undefined Undefined"
  have "\<not> is_set (token ?c)" by (simp add: example_configuration_def)
  with C9_token_precedence [OF example_heap_lookup, of ?c example_world]
  show "map_option token (resolved_configuration example_world (example_heap ?c) example_runner_props)
      = Some (Defined ''glrt-from-parameter'')"
    by (simp add: example_runner_props_def)
qed




subsection \<open>The resolved configuration and its input\<close>

text \<open>
  Claim C6. In a store whose next reference is free, the constructor changes no object
  that exists, the supplied configuration in particular; \<^verbatim>\<open>this.configuration\<close> is a new
  object; its fields other than \<^verbatim>\<open>token\<close> and \<^verbatim>\<open>name\<close> are those of the input; and a
  \<^verbatim>\<open>token\<close> or \<^verbatim>\<open>name\<close> that is set is passed through unchanged, an absent name
  being replaced by a generated one.
\<close>

theorem C6_resolution_frame:
  assumes "well_formed h" and "objects h (configuration props) = Some cfg"
  shows "\<exists>r h' cfg'.
      constructor w h props = Some (r, h')
    \<and> objects h' (configuration props) = Some cfg
    \<and> (\<forall>a. a \<noteq> this_configuration r \<longrightarrow> objects h' a = objects h a)
    \<and> this_configuration r \<noteq> configuration props
    \<and> objects h (this_configuration r) = None
    \<and> objects h' (this_configuration r) = Some cfg'
    \<and> machine cfg' = machine cfg
    \<and> others cfg' = others cfg
    \<and> (is_set (token cfg) \<longrightarrow> token cfg' = token cfg)
    \<and> (is_set (name cfg) \<longrightarrow> name cfg' = name cfg)
    \<and> (\<not> is_set (name cfg) \<longrightarrow> name cfg' = Defined (generateUniqueName w))"
proof -
  from assms have ne: "next_ref h \<noteq> configuration props"
    by (auto simp: well_formed_def)
  have tk: "is_set (token cfg) \<longrightarrow> token (resolve_configuration w props cfg) = token cfg"
    by (cases "token cfg") (simp_all add: resolve_configuration_def resolved_token_def)
  have nm: "is_set (name cfg) \<longrightarrow> name (resolve_configuration w props cfg) = name cfg"
    by (cases "name cfg") (simp_all add: resolve_configuration_def resolved_name_def)
  have gn: "\<not> is_set (name cfg) \<longrightarrow> name (resolve_configuration w props cfg) = Defined (generateUniqueName w)"
    by (cases "name cfg") (simp_all add: resolve_configuration_def resolved_name_def)
  have rest: "machine (resolve_configuration w props cfg) = machine cfg"
      "others (resolve_configuration w props cfg) = others cfg"
    by (simp_all add: resolve_configuration_def)
  show ?thesis
    using assms ne tk nm gn rest
    by (simp add: constructor_def alloc_def Let_def well_formed_def)
qed

text \<open>A configuration that supplies both token and name.\<close>

theorem C6_resolution_frame_witness:
  "\<exists>r h' cfg'.
      constructor example_world (example_heap (example_configuration (Defined ''abc'') (Defined ''runner-a'') Undefined))
         example_runner_props = Some (r, h')
    \<and> objects h' 0 = Some (example_configuration (Defined ''abc'') (Defined ''runner-a'') Undefined)
    \<and> this_configuration r \<noteq> 0
    \<and> objects h' (this_configuration r) = Some cfg'
    \<and> token cfg' = Defined ''abc'' \<and> name cfg' = Defined ''runner-a''"
proof -
  let ?c = "example_configuration (Defined ''abc'') (Defined ''runner-a'') Undefined"
  have c: "configuration example_runner_props = 0" "token ?c = Defined ''abc''" "name ?c = Defined ''runner-a''"
    by (simp_all add: example_runner_props_def example_configuration_def)
  from C6_resolution_frame [where w = example_world and h = "example_heap ?c", OF example_heap_well_formed example_heap_lookup]
  obtain r h' cfg' where "constructor example_world (example_heap ?c) example_runner_props = Some (r, h')"
    "objects h' (configuration example_runner_props) = Some ?c"
    "this_configuration r \<noteq> configuration example_runner_props"
    "objects h' (this_configuration r) = Some cfg'"
    "is_set (token ?c) \<longrightarrow> token cfg' = token ?c"
    "is_set (name ?c) \<longrightarrow> name cfg' = name ?c"
    by blast
  with c show ?thesis by auto
qed

subsection \<open>Instance type and machine image\<close>




section \<open>Properties of the stack\<close>

subsection \<open>What the constructor generates\<close>

lemma metadata_config:
  "map_of (configs (metadata (GitlabRunnerStack_constructor s p))) ''config'' =
     Some [InitFile_fromString ''/etc/gitlab-runner/config.toml'' (config_toml s p)
             (Some \<lparr>owner = ''gitlab-runner'', group = ''gitlab-runner'', mode = ''000600''\<rparr>),
           InitFile_fromString ''/etc/rsyslog.d/25-gitlab-runner.conf'' rsyslog_conf
             (Some \<lparr>owner = ''root'', group = ''root'', mode = ''000644''\<rparr>),
           InitService_enable ''gitlab-runner'' True True,
           InitService_enable ''rsyslog'' True True]"
  by (simp add: GitlabRunnerStack_constructor_def CloudFormationInit_fromConfigSets_def)

lemma bootstrap_document_eq:
  "bootstrap_document (GitlabRunnerStack_constructor s p) = Some (config_toml s p)"
  by (simp add: bootstrap_document_def metadata_config)


text \<open>The document generated for the example, character by character.\<close>

lemma config_toml_example: \<open>config_toml example_stack example_props =
     ''\<newline>'' @
     ''            concurrent = 10\<newline>'' @
     ''            check_interval = 0\<newline>'' @
     ''            [[runners]]\<newline>'' @
     ''              name = "GitlabRunnerStack"\<newline>'' @
     ''              url = "https://gitlab.com"\<newline>'' @
     ''              token = "abc"\<newline>'' @
     ''              executor = "docker+machine"\<newline>'' @
     ''              environment = [\<newline>'' @
     ''                "DOCKER_DRIVER=overlay2",\<newline>'' @
     ''                "DOCKER_TLS_CERTDIR=/certs"\<newline>'' @
     ''              ]\<newline>'' @
     ''              [runners.docker]\<newline>'' @
     ''                tls_verify = false\<newline>'' @
     ''                image = "alpine"\<newline>'' @
     ''                privileged = true\<newline>'' @
     ''                disable_cache = false\<newline>'' @
     ''                volumes = ["/certs/client", "/cache"]\<newline>'' @
     ''                shm_size = 0\<newline>'' @
     ''              [runners.cache]\<newline>'' @
     ''                Type = "s3"\<newline>'' @
     ''                Shared = true\<newline>'' @
     ''              [runners.cache.s3]\<newline>'' @
     ''                ServerAddress = "s3.amazonaws.com"\<newline>'' @
     ''                BucketName = "runner-cache"\<newline>'' @
     ''                BucketLocation = "eu-central-1"\<newline>'' @
     ''              [runners.machine]\<newline>'' @
     ''                IdleCount = 0\<newline>'' @
     ''                IdleTime = 300\<newline>'' @
     ''                MaxBuilds = 10\<newline>'' @
     ''                MachineDriver = "amazonec2"\<newline>'' @
     ''                MachineName = "gitlab-docker-machine-%s"\<newline>'' @
     ''                MachineOptions = [\<newline>'' @
     ''                  "amazonec2-instance-type=c5.large",\<newline>'' @
     ''                  "amazonec2-region=eu-central-1",\<newline>'' @
     ''                  "amazonec2-vpc-id=vpc-0a1b2c",\<newline>'' @
     ''                  "amazonec2-zone=a",\<newline>'' @
     ''                  "amazonec2-subnet-id=undefined",\<newline>'' @
     ''                  "amazonec2-security-group=GitlabRunnerStack-RunnersSecurityGroup",\<newline>'' @
     ''                  "amazonec2-use-private-address=true",\<newline>'' @
     ''                  "amazonec2-iam-instance-profile=RunnersInstanceProfile"\<newline>'' @
     ''                   \<newline>'' @
     ''                  \<newline>'' @
     ''                ]\<newline>'' @
     ''                OffPeakTimezone = "Europe/Berlin"\<newline>'' @
     ''                OffPeakPeriods = ["* * 0-8,18-23 * * mon-fri *", "* * * * * sat,sun *"]\<newline>'' @
     ''                OffPeakIdleCount = 0\<newline>'' @
     ''                OffPeakIdleTime = 0\<newline>'' @
     ''            ''\<close>
  by (simp add: config_toml_def config_toml_lines_def template_literal_def unlines_def
      global_section_def runners_section_def runners_docker_section_def
  runners_cache_section_def runners_machine_section_def MachineOptions_def off_peak_lines_def
  OffPeakTimezone_def OffPeakPeriods_def OffPeakIdle_def spot_request_directive_def spot_price_directive_def
  example_stack_def example_props_def Number_toString_def decimal.simps digit_char_def)




subsection \<open>The cache bucket's lifecycle rule\<close>

lemma lifecycleRules_eq:
  "lifecycleRules (cacheBucket (GitlabRunnerStack_constructor s p)) =
     [\<lparr>enabled = (cacheExpirationInDays p = 0),
       expirationDate = setDate (getDate (new_Date s) + cacheExpirationInDays p) (new_Date s)\<rparr>]"
  by (simp add: GitlabRunnerStack_constructor_def cacheBucket_of_def lifeCycleRuleEnabled_def
      cacheBucketExpirationDate_def Let_def)

lemma expirationDate_day_number:
  "day_number (setDate (getDate d + n) d) = day_number d + n"
  by (simp add: day_number_def setDate_def getDate_def)

text \<open>
  Claim C3 fails on the code. With \<^verbatim>\<open>cacheExpirationInDays = 0\<close> the rule is enabled and
  expires objects on the day of deployment; with \<^verbatim>\<open>cacheExpirationInDays = 30\<close> the
  expiration date lies 30 days ahead and the rule is disabled. Line 369 compares with
  \<^verbatim>\<open>=== 0\<close> under the comment "Enabled if not 0. If 0 - cache doesnt't expire."
\<close>

theorem C3_lifecycle_rule_inverted:
  "map enabled (lifecycleRules (cacheBucket
      (GitlabRunnerStack_constructor example_stack (example_props\<lparr>cacheExpirationInDays := 0\<rparr>)))) = [True]
   \<and> map (\<lambda>r. day_number (expirationDate r) - day_number (new_Date example_stack))
       (lifecycleRules (cacheBucket
         (GitlabRunnerStack_constructor example_stack (example_props\<lparr>cacheExpirationInDays := 0\<rparr>)))) = [0]
   \<and> map enabled (lifecycleRules (cacheBucket
      (GitlabRunnerStack_constructor example_stack (example_props\<lparr>cacheExpirationInDays := 30\<rparr>)))) = [False]
   \<and> map (\<lambda>r. day_number (expirationDate r) - day_number (new_Date example_stack))
       (lifecycleRules (cacheBucket
         (GitlabRunnerStack_constructor example_stack (example_props\<lparr>cacheExpirationInDays := 30\<rparr>)))) = [30]"
  by (simp add: lifecycleRules_eq day_number_def setDate_def getDate_def)

subsection \<open>Lines and parts of lines in a document\<close>

lemma line_in_document:
  assumes "l \<in> set ls"
  shows "sublist (l @ ''\<newline>'') (template_literal ls T)"
proof -
  from assms obtain xs ys where "ls = xs @ l # ys" by (auto simp: in_set_conv_decomp)
  then have "template_literal ls T = (''\<newline>'' @ unlines xs) @ (l @ ''\<newline>'') @ (unlines ys @ T)"
    by (simp add: template_literal_def unlines_def)
  then show ?thesis unfolding sublist_def by blast
qed


subsection \<open>The concurrency values\<close>

lemma config_toml_lines_MaxConcurrentBuilds:
  "config_toml_lines s (p\<lparr>gitlabMaxConcurrentBuilds := v\<rparr>) = config_toml_lines s p"
  by (simp add: config_toml_lines_def global_section_def runners_section_def runners_docker_section_def
      runners_cache_section_def runners_machine_section_def MachineOptions_def off_peak_lines_def
      OffPeakTimezone_def OffPeakPeriods_def OffPeakIdle_def spot_request_directive_def spot_price_directive_def)

text \<open>
  Claim C10. Changing \<^verbatim>\<open>gitlabMaxConcurrentBuilds\<close> alone leaves the document as it is;
  the document starts with the \<^verbatim>\<open>concurrent\<close> line, which carries
  \<^verbatim>\<open>gitlabMaxBuilds\<close>, and its \<^verbatim>\<open>MaxBuilds\<close> line carries \<^verbatim>\<open>gitlabMaxBuilds\<close> too.
\<close>

theorem C10_document_ignores_MaxConcurrentBuilds:
  "config_toml s (p\<lparr>gitlabMaxConcurrentBuilds := v\<rparr>) = config_toml s p
   \<and> bootstrap_document (GitlabRunnerStack_constructor s (p\<lparr>gitlabMaxConcurrentBuilds := v\<rparr>))
       = bootstrap_document (GitlabRunnerStack_constructor s p)
   \<and> prefix (''\<newline>            concurrent = '' @ String_any (gitlabMaxBuilds p) @ ''\<newline>'') (config_toml s p)
   \<and> sublist (''                MaxBuilds = '' @ String_any (gitlabMaxBuilds p) @ ''\<newline>'') (config_toml s p)"
proof (intro conjI)
  show d: "config_toml s (p\<lparr>gitlabMaxConcurrentBuilds := v\<rparr>) = config_toml s p"
    by (simp add: config_toml_def config_toml_lines_MaxConcurrentBuilds)
  show "bootstrap_document (GitlabRunnerStack_constructor s (p\<lparr>gitlabMaxConcurrentBuilds := v\<rparr>))
       = bootstrap_document (GitlabRunnerStack_constructor s p)"
    by (simp add: bootstrap_document_eq d)
  show "prefix (''\<newline>            concurrent = '' @ String_any (gitlabMaxBuilds p) @ ''\<newline>'') (config_toml s p)"
    by (simp add: config_toml_def config_toml_lines_def global_section_def template_literal_def unlines_def)
  have "''                MaxBuilds = '' @ String_any (gitlabMaxBuilds p) \<in> set (config_toml_lines s p)"
    by (simp add: config_toml_lines_def runners_machine_section_def)
  from line_in_document [OF this]
  show "sublist (''                MaxBuilds = '' @ String_any (gitlabMaxBuilds p) @ ''\<newline>'') (config_toml s p)"
    by (simp add: config_toml_def)
qed

text \<open>The example, with \<^verbatim>\<open>gitlabMaxBuilds = 10\<close> and two values of
  \<^verbatim>\<open>gitlabMaxConcurrentBuilds\<close>.\<close>

theorem C10_document_ignores_MaxConcurrentBuilds_witness:
  "config_toml example_stack (example_props\<lparr>gitlabMaxConcurrentBuilds := AnyNumber 99\<rparr>)
     = config_toml example_stack example_props
   \<and> prefix ''\<newline>            concurrent = 10\<newline>'' (config_toml example_stack example_props)
   \<and> sublist ''                MaxBuilds = 10\<newline>'' (config_toml example_stack example_props)"
  using C10_document_ignores_MaxConcurrentBuilds
      [where s = example_stack and p = example_props and v = "AnyNumber 99"]
  by (simp add: example_props_def Number_toString_def decimal.simps digit_char_def)

subsection \<open>Scanning a text for a key\<close>












subsection \<open>The spot directives\<close>






subsection \<open>The off-peak schedule\<close>

text \<open>
  Claim C8, as amended. The off-peak lines close the document; their period list is the
  fixed two-entry list of line 285 (hours 0-8 and 18-23 on Monday to Friday, and all of
  Saturday and Sunday, in the runner's cron notation), the same for every input; and the
  off-peak lines vary with the off-peak timezone, idle count and idle time only.
\<close>

theorem C8_off_peak_schedule:
  \<open>suffix (off_peak_lines p) (config_toml_lines s p)
   \<and> off_peak_lines p =
       [''                OffPeakTimezone = "'' @ String_any (gitlabOffPeakTimezone p) @ ''"'',
        ''                OffPeakPeriods = ["* * 0-8,18-23 * * mon-fri *", "* * * * * sat,sun *"]'',
        ''                OffPeakIdleCount = '' @ String_any (gitlabOffPeakIdleCount p),
        ''                OffPeakIdleTime = '' @ String_any (gitlabOffPeakIdleTime p)]
   \<and> sublist ''                OffPeakPeriods = ["* * 0-8,18-23 * * mon-fri *", "* * * * * sat,sun *"]\<newline>''
        (config_toml s p)
   \<and> (\<forall>q. gitlabOffPeakTimezone q = gitlabOffPeakTimezone p
          \<and> gitlabOffPeakIdleCount q = gitlabOffPeakIdleCount p
          \<and> gitlabOffPeakIdleTime q = gitlabOffPeakIdleTime p
          \<longrightarrow> off_peak_lines q = off_peak_lines p)\<close>
proof (intro conjI allI impI)
  show "suffix (off_peak_lines p) (config_toml_lines s p)"
    by (simp add: config_toml_lines_def suffix_def)
  show l: \<open>off_peak_lines p =
       [''                OffPeakTimezone = "'' @ String_any (gitlabOffPeakTimezone p) @ ''"'',
        ''                OffPeakPeriods = ["* * 0-8,18-23 * * mon-fri *", "* * * * * sat,sun *"]'',
        ''                OffPeakIdleCount = '' @ String_any (gitlabOffPeakIdleCount p),
        ''                OffPeakIdleTime = '' @ String_any (gitlabOffPeakIdleTime p)]\<close>
    by (simp add: off_peak_lines_def OffPeakTimezone_def OffPeakPeriods_def OffPeakIdle_def)
  have \<open>''                OffPeakPeriods = ["* * 0-8,18-23 * * mon-fri *", "* * * * * sat,sun *"]''
      \<in> set (config_toml_lines s p)\<close>
    by (simp add: config_toml_lines_def l)
  from line_in_document [OF this, of "''            ''"]
  show \<open>sublist ''                OffPeakPeriods = ["* * 0-8,18-23 * * mon-fri *", "* * * * * sat,sun *"]\<newline>''
        (config_toml s p)\<close>
    by (simp add: config_toml_def)
next
  fix q :: GitlabRunnerStackProps
  assume "gitlabOffPeakTimezone q = gitlabOffPeakTimezone p
          \<and> gitlabOffPeakIdleCount q = gitlabOffPeakIdleCount p
          \<and> gitlabOffPeakIdleTime q = gitlabOffPeakIdleTime p"
  then show "off_peak_lines q = off_peak_lines p"
    by (simp add: off_peak_lines_def OffPeakTimezone_def OffPeakPeriods_def OffPeakIdle_def)
qed

text \<open>Two properties that differ in the URL and in the build limit.\<close>

theorem C8_off_peak_schedule_witness:
  "off_peak_lines (example_props\<lparr>gitlabUrl := AnyString ''https://gitlab.example.org'', gitlabMaxBuilds := AnyNumber 1\<rparr>)
     = off_peak_lines example_props"
  using C8_off_peak_schedule [where p = example_props and s = example_stack]
  by simp

text \<open>Two properties that differ in the off-peak timezone only: the idle count and idle
  time agree and the off-peak lines differ.\<close>

theorem C8_counterexample:
  "gitlabOffPeakIdleCount (example_props\<lparr>gitlabOffPeakTimezone := AnyString ''UTC''\<rparr>)
     = gitlabOffPeakIdleCount example_props
   \<and> gitlabOffPeakIdleTime (example_props\<lparr>gitlabOffPeakTimezone := AnyString ''UTC''\<rparr>)
     = gitlabOffPeakIdleTime example_props
   \<and> off_peak_lines (example_props\<lparr>gitlabOffPeakTimezone := AnyString ''UTC''\<rparr>)
     \<noteq> off_peak_lines example_props"
  by (simp add: off_peak_lines_def OffPeakTimezone_def example_props_def)

end
